theory Spec2Isabelle
  imports Main
begin

section \<open>The email sequence enrollment processor\<close>

text \<open>
  A shallow embedding of the route handler \<^verbatim>\<open>POST\<close> of \<^verbatim>\<open>/api/sequences/process\<close> and of its
  helper \<^verbatim>\<open>processEnrollment\<close>. Strings are \<^typ>\<open>string\<close>, a nullable column is an
  \<^typ>\<open>'a option\<close>, a timestamp is the time value of a JavaScript \<^verbatim>\<open>Date\<close> (milliseconds
  since the epoch, an \<^typ>\<open>int\<close>; \<^verbatim>\<open>toISOString\<close> renders it injectively and is left out),
  and a delay amount is an integer, as the column holds it.
\<close>

subsection \<open>Rows and joined records\<close>

type_synonym timestamp = int

datatype enrollment_status = Active | Paused | Completed | Replied

record Contact =
  contact_id :: string
  email :: "string option"
  first_name :: "string option"
  last_name :: "string option"

record EmailSequenceStep =
  template_id :: string
  subject_override :: "string option"
  delay_days :: "int option"
  delay_unit :: "string option"

record EmailSequence =
  sequence_name :: string
  steps :: "EmailSequenceStep list"
  smtp_config_id :: "string option"

record EmailTemplate =
  subject :: "string option"
  body_html :: "string option"
  body_text :: "string option"

record SMTPConfig =
  account_id :: string
  organization_id :: string
  account_name :: "string option"
  email_addr :: "string option"
  smtp_user :: string
  smtp_host :: string
  smtp_port :: int
  smtp_pass_encrypted :: "string option"

record EnrollmentWithRelations =
  enrollment_id :: string
  current_step :: int
  contact :: "Contact option"
  sequence :: "EmailSequence option"

record UserData =
  user_id :: string

text \<open>A row of the table \<^verbatim>\<open>sequence_enrollments\<close>.\<close>

record enrollment_row =
  row_id :: string
  row_sequence_id :: string
  row_contact_id :: string
  row_current_step :: int
  row_status :: enrollment_status
  row_next_send_at :: "timestamp option"
  row_updated_at :: "timestamp option"

text \<open>
  The object handed to \<^verbatim>\<open>.update(...)\<close>. A key that the object does not have is \<open>None\<close>;
  \<^verbatim>\<open>next_send_at: null\<close> is \<open>Some None\<close>.
\<close>

record EnrollmentUpdate =
  upd_current_step :: "int option"
  upd_updated_at :: timestamp
  upd_next_send_at :: "timestamp option option"
  upd_status :: "enrollment_status option"

record email_row =
  email_id :: nat
  email_account_id :: string
  email_organization_id :: string
  from_addr :: "string option"
  to_addr :: string
  email_subject :: string
  email_body_html :: string
  folder :: string
  is_read :: bool
  received_at :: timestamp
  email_enrollment_id :: string

record activity_row =
  activity_organization_id :: string
  activity_contact_id :: string
  activity_type :: string
  title :: string
  description :: string
  created_by :: string

record mail_message =
  mail_from :: string
  mail_to :: string
  mail_subject :: string
  mail_html :: string

record TransporterWithMeta =
  transport_host :: string
  transport_port :: int
  secure :: bool
  auth_user :: string
  auth_pass :: string
  accountInfo :: SMTPConfig

datatype result_status = St_success | St_error

record enrollment_result =
  result_id :: string
  status :: result_status
  message :: string

subsection \<open>JavaScript operators on nullable strings\<close>

text \<open>\<^verbatim>\<open>!v\<close> is false exactly for a non-empty string.\<close>

definition truthy :: "string option \<Rightarrow> bool" where
  "truthy v = (case v of None \<Rightarrow> False | Some s \<Rightarrow> s \<noteq> [])"

text \<open>\<^verbatim>\<open>v || d\<close>: the left operand unless it is null, undefined or the empty string.\<close>

definition js_or :: "string option \<Rightarrow> string \<Rightarrow> string" where
  "js_or v d = (case v of None \<Rightarrow> d | Some s \<Rightarrow> if s = [] then d else s)"

text \<open>\<^verbatim>\<open>v ?? d\<close>: the left operand unless it is null or undefined.\<close>

definition nullish :: "'a option \<Rightarrow> 'a \<Rightarrow> 'a" where
  "nullish v d = (case v of None \<Rightarrow> d | Some x \<Rightarrow> x)"

fun string_of_nat :: "nat \<Rightarrow> string" where
  "string_of_nat n =
     (if n < 10 then [char_of (48 + n)]
      else string_of_nat (n div 10) @ [char_of (48 + n mod 10)])"

declare string_of_nat.simps [simp del]

subsection \<open>\<^verbatim>\<open>String.prototype.replace\<close> with a global literal pattern\<close>

text \<open>
  \<^verbatim>\<open>GetSubstitution\<close> of ECMAScript for a pattern without capture groups: in the replacement
  text \<^verbatim>\<open>$$\<close> stands for a dollar sign, \<^verbatim>\<open>$&\<close> for the matched text, \<^verbatim>\<open>$`\<close> for the text before
  the match and \<^verbatim>\<open>$'\<close> for the text after it; every other character, a dollar sign before
  anything else included, stands for itself.
\<close>

fun GetSubstitution :: "string \<Rightarrow> string \<Rightarrow> string \<Rightarrow> string \<Rightarrow> string" where
  "GetSubstitution matched pre post [] = []"
| "GetSubstitution matched pre post [c] = [c]"
| "GetSubstitution matched pre post (c # d # r) =
     (if c = CHR ''$'' \<and> d = CHR ''$'' then CHR ''$'' # GetSubstitution matched pre post r
      else if c = CHR ''$'' \<and> d = CHR ''&'' then matched @ GetSubstitution matched pre post r
      else if c = CHR ''$'' \<and> d = CHR 0x60 then pre @ GetSubstitution matched pre post r
      else if c = CHR ''$'' \<and> d = CHR 0x27 then post @ GetSubstitution matched pre post r
      else c # GetSubstitution matched pre post (d # r))"

text \<open>
  \<^verbatim>\<open>str.replace(/pat/g, replacement)\<close> for a non-empty literal \<open>pat\<close>: the matches are found
  from left to right and do not overlap; \<open>seen\<close> is the part of the subject already
  scanned, which \<^verbatim>\<open>$`\<close> refers to.
\<close>

fun replace_from :: "string \<Rightarrow> string \<Rightarrow> string \<Rightarrow> string \<Rightarrow> string" where
  "replace_from pat replacement seen [] = []"
| "replace_from pat replacement seen (c # cs) =
     (if pat \<noteq> [] \<and> take (length pat) (c # cs) = pat
      then GetSubstitution pat seen (drop (length pat - 1) cs) replacement
           @ replace_from pat replacement (seen @ pat) (drop (length pat - 1) cs)
      else c # replace_from pat replacement (seen @ [c]) cs)"

definition replace_global :: "string \<Rightarrow> string \<Rightarrow> string \<Rightarrow> string" where
  "replace_global pat replacement str = replace_from pat replacement [] str"

subsection \<open>The time value of a \<^verbatim>\<open>Date\<close>\<close>

text \<open>
  The abstract operations of ECMAScript on time values. The host's zone is a fixed offset
  \<open>tza\<close> from UTC in milliseconds; a zone whose offset changes between the two instants
  is outside this model.
\<close>

definition msPerDay :: int where "msPerDay = 86400000"
definition msPerHour :: int where "msPerHour = 3600000"
definition msPerMinute :: int where "msPerMinute = 60000"
definition msPerSecond :: int where "msPerSecond = 1000"

definition Day :: "int \<Rightarrow> int" where "Day t = t div msPerDay"
definition TimeWithinDay :: "int \<Rightarrow> int" where "TimeWithinDay t = t mod msPerDay"
definition HourFromTime :: "int \<Rightarrow> int" where "HourFromTime t = (t div msPerHour) mod 24"
definition MinFromTime :: "int \<Rightarrow> int" where "MinFromTime t = (t div msPerMinute) mod 60"
definition SecFromTime :: "int \<Rightarrow> int" where "SecFromTime t = (t div msPerSecond) mod 60"
definition msFromTime :: "int \<Rightarrow> int" where "msFromTime t = t mod msPerSecond"

definition MakeTime :: "int \<Rightarrow> int \<Rightarrow> int \<Rightarrow> int \<Rightarrow> int" where
  "MakeTime hour minute sec ms = hour * msPerHour + minute * msPerMinute + sec * msPerSecond + ms"

definition MakeDate :: "int \<Rightarrow> int \<Rightarrow> int" where
  "MakeDate day time = day * msPerDay + time"

definition DayFromYear :: "int \<Rightarrow> int" where
  "DayFromYear y = 365 * (y - 1970) + (y - 1969) div 4 - (y - 1901) div 100 + (y - 1601) div 400"

definition leap_year :: "int \<Rightarrow> bool" where
  "leap_year y = (y mod 4 = 0 \<and> (y mod 100 \<noteq> 0 \<or> y mod 400 = 0))"

text \<open>The year of a day number, by the cycles of 400, 100, 4 and 1 years from year 1.\<close>

definition YearFromTime :: "int \<Rightarrow> int" where
  "YearFromTime t =
     (let n = Day t + 719162;
          n400 = n div 146097; r400 = n mod 146097;
          n100 = min 3 (r400 div 36524); r100 = r400 - n100 * 36524;
          n4 = r100 div 1461; r4 = r100 mod 1461;
          n1 = min 3 (r4 div 365)
      in 400 * n400 + 100 * n100 + 4 * n4 + n1 + 1)"

definition DayWithinYear :: "int \<Rightarrow> int" where
  "DayWithinYear t = Day t - DayFromYear (YearFromTime t)"

text \<open>The number of days of the year before month \<open>m\<close> (0 is January).\<close>

definition month_start :: "int \<Rightarrow> bool \<Rightarrow> int" where
  "month_start m leap =
     (let l = (if leap then 1 else 0) in
      if m \<le> 0 then 0 else if m = 1 then 31 else if m = 2 then 59 + l
      else if m = 3 then 90 + l else if m = 4 then 120 + l else if m = 5 then 151 + l
      else if m = 6 then 181 + l else if m = 7 then 212 + l else if m = 8 then 243 + l
      else if m = 9 then 273 + l else if m = 10 then 304 + l else 334 + l)"

definition MonthFromTime :: "int \<Rightarrow> int" where
  "MonthFromTime t =
     (let d = DayWithinYear t; leap = leap_year (YearFromTime t) in
      if d < month_start 1 leap then 0 else if d < month_start 2 leap then 1
      else if d < month_start 3 leap then 2 else if d < month_start 4 leap then 3
      else if d < month_start 5 leap then 4 else if d < month_start 6 leap then 5
      else if d < month_start 7 leap then 6 else if d < month_start 8 leap then 7
      else if d < month_start 9 leap then 8 else if d < month_start 10 leap then 9
      else if d < month_start 11 leap then 10 else 11)"

definition DateFromTime :: "int \<Rightarrow> int" where
  "DateFromTime t =
     DayWithinYear t - month_start (MonthFromTime t) (leap_year (YearFromTime t)) + 1"

text \<open>
  \<^verbatim>\<open>MakeDay(year, month, date)\<close>: the day number of the first of the month, plus
  \<open>date - 1\<close>; a month outside 0..11 carries into the year.
\<close>

definition MakeDay :: "int \<Rightarrow> int \<Rightarrow> int \<Rightarrow> int" where
  "MakeDay year month date =
     (let ym = year + month div 12; mn = month mod 12
      in DayFromYear ym + month_start mn (leap_year ym) + date - 1)"

definition LocalTime :: "int \<Rightarrow> timestamp \<Rightarrow> int" where
  "LocalTime tza t = t + tza"

definition UTC :: "int \<Rightarrow> int \<Rightarrow> timestamp" where
  "UTC tza t = t - tza"

definition getMinutes :: "int \<Rightarrow> timestamp \<Rightarrow> int" where
  "getMinutes tza t = MinFromTime (LocalTime tza t)"

definition getHours :: "int \<Rightarrow> timestamp \<Rightarrow> int" where
  "getHours tza t = HourFromTime (LocalTime tza t)"

definition getDate :: "int \<Rightarrow> timestamp \<Rightarrow> int" where
  "getDate tza t = DateFromTime (LocalTime tza t)"

definition setMinutes :: "int \<Rightarrow> timestamp \<Rightarrow> int \<Rightarrow> timestamp" where
  "setMinutes tza t m =
     (let lt = LocalTime tza t
      in UTC tza (MakeDate (Day lt) (MakeTime (HourFromTime lt) m (SecFromTime lt) (msFromTime lt))))"

definition setHours :: "int \<Rightarrow> timestamp \<Rightarrow> int \<Rightarrow> timestamp" where
  "setHours tza t h =
     (let lt = LocalTime tza t
      in UTC tza (MakeDate (Day lt) (MakeTime h (MinFromTime lt) (SecFromTime lt) (msFromTime lt))))"

definition setDate :: "int \<Rightarrow> timestamp \<Rightarrow> int \<Rightarrow> timestamp" where
  "setDate tza t dt =
     (let lt = LocalTime tza t
      in UTC tza (MakeDate (MakeDay (YearFromTime lt) (MonthFromTime lt) dt) (TimeWithinDay lt)))"


subsection \<open>The environment and the mutable state of a run\<close>

text \<open>
  What a run reads but never writes: the clock, the host's zone, the configured base URL,
  the tables it only selects from, and the behaviour of the collaborators that are not
  part of this code (\<^verbatim>\<open>decrypt\<close>, \<^verbatim>\<open>injectTracking\<close>, whether the database rejects an
  insert into \<^verbatim>\<open>emails\<close>, whether the mail server rejects a message). A select that
  answers with an error is a select that finds no row: the code treats the two alike.
  The updates and the insert into \<^verbatim>\<open>activities\<close> take effect; the code does not look at
  their answers. The clock is read by every \<^verbatim>\<open>new Date()\<close>; it has one value per
  environment. \<open>enrollError\<close> is the message of the error of the query for the due
  enrollments, if it fails.
\<close>

record env =
  now :: timestamp
  tza :: int
  app_url :: "string option"
  email_templates :: "string \<rightharpoonup> EmailTemplate"
  smtp_configs :: "string \<rightharpoonup> SMTPConfig"
  contacts :: "string \<rightharpoonup> Contact"
  email_sequences :: "string \<rightharpoonup> EmailSequence"
  enrollError :: "string option"
  decrypt :: "string \<Rightarrow> string + string"
  injectTracking :: "string \<Rightarrow> nat \<Rightarrow> string \<Rightarrow> string"
  emailError :: "email_row \<Rightarrow> string option"
  sendMail_error :: "TransporterWithMeta \<Rightarrow> mail_message \<Rightarrow> string option"

text \<open>
  The calls that leave the process or touch a credential, in the order they are made.
\<close>

datatype event =
    Ev_decrypt string
  | Ev_createTransport TransporterWithMeta
  | Ev_insert_email nat
  | Ev_insert_email_failed string
  | Ev_sendMail mail_message

text \<open>
  What a run writes: three tables, the map \<^verbatim>\<open>transporters\<close> that \<^verbatim>\<open>POST\<close> creates and shares
  between all calls of \<^verbatim>\<open>processEnrollment\<close>, and the log of events.
\<close>

record state =
  sequence_enrollments :: "enrollment_row list"
  emails :: "email_row list"
  activities :: "activity_row list"
  transporters :: "string \<rightharpoonup> TransporterWithMeta"
  events :: "event list"

definition apply_update :: "EnrollmentUpdate \<Rightarrow> enrollment_row \<Rightarrow> enrollment_row" where
  "apply_update u r =
     r\<lparr>row_current_step := (case upd_current_step u of None \<Rightarrow> row_current_step r | Some n \<Rightarrow> n),
       row_updated_at := Some (upd_updated_at u),
       row_next_send_at := (case upd_next_send_at u of None \<Rightarrow> row_next_send_at r | Some v \<Rightarrow> v),
       row_status := (case upd_status u of None \<Rightarrow> row_status r | Some st \<Rightarrow> st)\<rparr>"

text \<open>\<^verbatim>\<open>.from('sequence_enrollments').update(u).eq('id', i)\<close>\<close>

definition update_enrollment :: "string \<Rightarrow> EnrollmentUpdate \<Rightarrow> enrollment_row list \<Rightarrow> enrollment_row list" where
  "update_enrollment i u rows = map (\<lambda>r. if row_id r = i then apply_update u r else r) rows"

text \<open>\<^verbatim>\<open>.from('emails').update({ body_html: b }).eq('id', i)\<close>\<close>

definition update_email_body :: "nat \<Rightarrow> string \<Rightarrow> email_row list \<Rightarrow> email_row list" where
  "update_email_body i b rows = map (\<lambda>r. if email_id r = i then r\<lparr>email_body_html := b\<rparr> else r) rows"

text \<open>\<^verbatim>\<open>xs[i]\<close> is \<^verbatim>\<open>undefined\<close> outside the array.\<close>

definition js_index :: "'a list \<Rightarrow> int \<Rightarrow> 'a option" where
  "js_index xs i = (if 0 \<le> i \<and> i < int (length xs) then Some (xs ! nat i) else None)"

subsection \<open>The pure parts of \<^verbatim>\<open>processEnrollment\<close>\<close>

definition effective_subject :: "EmailSequenceStep \<Rightarrow> EmailTemplate \<Rightarrow> string" where
  "effective_subject step template =
     js_or (subject_override step) (js_or (subject template) ''(No Subject)'')"

definition effective_body :: "EmailTemplate \<Rightarrow> Contact \<Rightarrow> string" where
  "effective_body template c =
     (let body = js_or (body_html template) (js_or (body_text template) []);
          body = replace_global ''{{first_name}}'' (js_or (first_name c) []) body;
          body = replace_global ''{{last_name}}'' (js_or (last_name c) []) body;
          body = replace_global ''{{email}}'' (js_or (email c) []) body
      in body)"

definition next_send_at_after :: "env \<Rightarrow> EmailSequenceStep \<Rightarrow> timestamp" where
  "next_send_at_after E nextStep =
     (let nextSendAt = now E;
          delayValue = nullish (delay_days nextStep) 1;
          delayUnit = js_or (delay_unit nextStep) ''days''
      in if delayUnit = ''minutes''
         then setMinutes (tza E) nextSendAt (getMinutes (tza E) nextSendAt + delayValue)
         else if delayUnit = ''hours''
         then setHours (tza E) nextSendAt (getHours (tza E) nextSendAt + delayValue)
         else setDate (tza E) nextSendAt (getDate (tza E) nextSendAt + delayValue))"

definition enrollment_updates :: "env \<Rightarrow> int \<Rightarrow> EmailSequenceStep list \<Rightarrow> EnrollmentUpdate" where
  "enrollment_updates E currentStepIndex sts =
     (let nextStepIndex = currentStepIndex + 1 in
      case js_index sts nextStepIndex of
        Some nextStep \<Rightarrow>
          \<lparr>upd_current_step = Some nextStepIndex, upd_updated_at = now E,
           upd_next_send_at = Some (Some (next_send_at_after E nextStep)), upd_status = None\<rparr>
      | None \<Rightarrow>
          \<lparr>upd_current_step = Some nextStepIndex, upd_updated_at = now E,
           upd_next_send_at = Some None, upd_status = Some Completed\<rparr>)"

text \<open>
  \<^verbatim>\<open>nodemailer.createTransport\<close> with the account's host, port and user and the decrypted
  password; the constant options (\<^verbatim>\<open>tls\<close>, \<^verbatim>\<open>pool\<close>, \<^verbatim>\<open>maxConnections\<close>, \<^verbatim>\<open>maxMessages\<close>) are
  left out. The account is attached as \<^verbatim>\<open>accountInfo\<close>.
\<close>

definition createTransport :: "SMTPConfig \<Rightarrow> string \<Rightarrow> TransporterWithMeta" where
  "createTransport account password =
     \<lparr>transport_host = smtp_host account, transport_port = smtp_port account,
      secure = (smtp_port account = 465), auth_user = smtp_user account,
      auth_pass = password, accountInfo = account\<rparr>"

definition sender :: "SMTPConfig \<Rightarrow> string" where
  "sender account =
     [CHR 0x22] @ js_or (account_name account) (smtp_user account) @ [CHR 0x22] @ '' <''
       @ js_or (email_addr account) (smtp_user account) @ ''>''"

subsection \<open>\<^verbatim>\<open>processEnrollment\<close> as a task that is suspended at every \<^verbatim>\<open>await\<close>\<close>

text \<open>
  \<^verbatim>\<open>processEnrollment\<close> is an \<^verbatim>\<open>async\<close> function: it runs until its first \<^verbatim>\<open>await\<close>, and each
  time the awaited call has answered it runs on to the next one. Between two of its
  \<^verbatim>\<open>await\<close>s other calls of \<^verbatim>\<open>processEnrollment\<close> of the same batch may run. A task is the
  call that is being awaited, with the local variables the rest of the function reads.
  One step of a task is the effect of the awaited call on the tables followed by the
  code up to the next \<^verbatim>\<open>await\<close>: that code reads and writes only local variables and the
  map \<^verbatim>\<open>transporters\<close>, which no awaited call touches, so nothing is lost by taking the two
  together.
\<close>

record ctx =
  ctx_enrollment :: EnrollmentWithRelations
  ctx_contact :: Contact
  ctx_to :: string
  ctx_sequence :: EmailSequence
  ctx_step :: EmailSequenceStep

datatype task =
    Done enrollment_result
  | Await_complete EnrollmentWithRelations
  | Await_template ctx
  | Await_account ctx EmailTemplate string
  | Await_email_insert ctx TransporterWithMeta string string
  | Await_email_update ctx TransporterWithMeta string nat string
  | Await_sendMail ctx TransporterWithMeta string string
  | Await_activity ctx TransporterWithMeta string
  | Await_enrollment_update ctx EnrollmentUpdate

datatype 'a completion = Normal 'a | Throw string

definition error_result :: "string \<Rightarrow> string \<Rightarrow> enrollment_result" where
  "error_result i msg = \<lparr>result_id = i, status = St_error, message = msg\<rparr>"

definition success_result :: "string \<Rightarrow> string \<Rightarrow> enrollment_result" where
  "success_result i msg = \<lparr>result_id = i, status = St_success, message = msg\<rparr>"

fun task_id :: "task \<Rightarrow> string" where
  "task_id (Done r) = result_id r"
| "task_id (Await_complete e) = enrollment_id e"
| "task_id (Await_template c) = enrollment_id (ctx_enrollment c)"
| "task_id (Await_account c template smtpId) = enrollment_id (ctx_enrollment c)"
| "task_id (Await_email_insert c tr subj body) = enrollment_id (ctx_enrollment c)"
| "task_id (Await_email_update c tr subj i tracked) = enrollment_id (ctx_enrollment c)"
| "task_id (Await_sendMail c tr subj tracked) = enrollment_id (ctx_enrollment c)"
| "task_id (Await_activity c tr subj) = enrollment_id (ctx_enrollment c)"
| "task_id (Await_enrollment_update c u) = enrollment_id (ctx_enrollment c)"

text \<open>
  The handler of the \<^verbatim>\<open>try\<close> that encloses the whole body: a thrown error becomes the
  result \<^verbatim>\<open>{ id, status: 'error', message: err.message }\<close>.
\<close>

definition catch :: "string \<Rightarrow> task completion \<Rightarrow> task" where
  "catch i c = (case c of Normal t \<Rightarrow> t | Throw msg \<Rightarrow> Done (error_result i msg))"

text \<open>
  From the entry of the function to its first \<^verbatim>\<open>await\<close>. Reading \<^verbatim>\<open>steps\<close> of a sequence
  that the join did not find, or \<^verbatim>\<open>template_id\<close> of a step at a negative index, throws a
  \<^verbatim>\<open>TypeError\<close>.
\<close>

definition start_body :: "EnrollmentWithRelations \<Rightarrow> task completion" where
  "start_body enrollment =
     (case contact enrollment of
        None \<Rightarrow> Normal (Done (error_result (enrollment_id enrollment) ''Enrollment has no valid contact or email''))
      | Some c \<Rightarrow>
         (case email c of
            None \<Rightarrow> Normal (Done (error_result (enrollment_id enrollment) ''Enrollment has no valid contact or email''))
          | Some addr \<Rightarrow>
             if addr = [] then Normal (Done (error_result (enrollment_id enrollment) ''Enrollment has no valid contact or email''))
             else
              (case sequence enrollment of
                 None \<Rightarrow> Throw ''Cannot read properties of null (reading 'steps')''
               | Some sq \<Rightarrow>
                  if current_step enrollment \<ge> int (length (steps sq)) then Normal (Await_complete enrollment)
                  else
                   (case js_index (steps sq) (current_step enrollment) of
                      None \<Rightarrow> Throw ''Cannot read properties of undefined (reading 'template_id')''
                    | Some step \<Rightarrow>
                        Normal (Await_template \<lparr>ctx_enrollment = enrollment, ctx_contact = c, ctx_to = addr,
                                                ctx_sequence = sq, ctx_step = step\<rparr>)))))"

definition start :: "EnrollmentWithRelations \<Rightarrow> task" where
  "start enrollment = catch (enrollment_id enrollment) (start_body enrollment)"

text \<open>Steps 3 and 4 of the source: subject, body, and the insert into \<^verbatim>\<open>emails\<close> is issued.\<close>

definition prepare_email :: "ctx \<Rightarrow> EmailTemplate \<Rightarrow> TransporterWithMeta \<Rightarrow> task" where
  "prepare_email c template transporter =
     Await_email_insert c transporter (effective_subject (ctx_step c) template)
       (effective_body template (ctx_contact c))"

definition email_record :: "env \<Rightarrow> ctx \<Rightarrow> SMTPConfig \<Rightarrow> string \<Rightarrow> string \<Rightarrow> nat \<Rightarrow> email_row" where
  "email_record E c account subj body i =
     \<lparr>email_id = i, email_account_id = account_id account,
      email_organization_id = organization_id account, from_addr = email_addr account,
      to_addr = ctx_to c, email_subject = subj, email_body_html = body, folder = ''sent'',
      is_read = True, received_at = now E,
      email_enrollment_id = enrollment_id (ctx_enrollment c)\<rparr>"

definition activity_record :: "ctx \<Rightarrow> SMTPConfig \<Rightarrow> string \<Rightarrow> UserData \<Rightarrow> activity_row" where
  "activity_record c account subj user =
     \<lparr>activity_organization_id = organization_id account,
      activity_contact_id = contact_id (ctx_contact c), activity_type = ''email'',
      title = ''Sequence Email Sent: '' @ subj,
      description = ''Sent as part of '' @ [CHR 0x22] @ sequence_name (ctx_sequence c) @ [CHR 0x22]
        @ '' (Step '' @ string_of_nat (nat (current_step (ctx_enrollment c) + 1)) @ '')'',
      created_by = user_id user\<rparr>"

definition mail_of :: "ctx \<Rightarrow> SMTPConfig \<Rightarrow> string \<Rightarrow> string \<Rightarrow> mail_message" where
  "mail_of c account subj trackedBody =
     \<lparr>mail_from = sender account, mail_to = ctx_to c, mail_subject = subj, mail_html = trackedBody\<rparr>"

text \<open>
  The awaited call takes effect, and the function runs on to its next \<^verbatim>\<open>await\<close>, to a
  \<^verbatim>\<open>return\<close> or to a \<^verbatim>\<open>throw\<close>.
\<close>

fun try_body :: "env \<Rightarrow> UserData \<Rightarrow> task \<Rightarrow> state \<Rightarrow> task completion \<times> state" where
  "try_body E user (Done r) s = (Normal (Done r), s)"
| "try_body E user (Await_complete enrollment) s =
     (Normal (Done (success_result (enrollment_id enrollment) ''Sequence completed (no more steps)'')),
      s\<lparr>sequence_enrollments :=
          update_enrollment (enrollment_id enrollment)
            \<lparr>upd_current_step = None, upd_updated_at = now E, upd_next_send_at = None,
             upd_status = Some Completed\<rparr>
            (sequence_enrollments s)\<rparr>)"
| "try_body E user (Await_template c) s =
     (case email_templates E (template_id (ctx_step c)) of
        None \<Rightarrow>
          (Normal (Done (error_result (enrollment_id (ctx_enrollment c))
             (''Template not found (ID: '' @ template_id (ctx_step c) @ '')''))), s)
      | Some template \<Rightarrow>
         (case smtp_config_id (ctx_sequence c) of
            None \<Rightarrow>
              (Normal (Done (error_result (enrollment_id (ctx_enrollment c))
                 ''No SMTP account selected for this sequence.'')), s)
          | Some smtpId \<Rightarrow>
             if smtpId = [] then
               (Normal (Done (error_result (enrollment_id (ctx_enrollment c))
                  ''No SMTP account selected for this sequence.'')), s)
             else
              (case transporters s smtpId of
                 None \<Rightarrow> (Normal (Await_account c template smtpId), s)
               | Some transporter \<Rightarrow> (Normal (prepare_email c template transporter), s))))"
| "try_body E user (Await_account c template smtpId) s =
     (case smtp_configs E smtpId of
        None \<Rightarrow>
          (Normal (Done (error_result (enrollment_id (ctx_enrollment c))
             (''SMTP config not found (ID: '' @ smtpId @ '')''))), s)
      | Some account \<Rightarrow>
         (case smtp_pass_encrypted account of
            None \<Rightarrow>
              (Normal (Done (error_result (enrollment_id (ctx_enrollment c))
                 ''SMTP Password not configured for this account'')), s)
          | Some encrypted \<Rightarrow>
             if encrypted = [] then
               (Normal (Done (error_result (enrollment_id (ctx_enrollment c))
                  ''SMTP Password not configured for this account'')), s)
             else
              (case decrypt E encrypted of
                 Inl msg \<Rightarrow> (Throw msg, s\<lparr>events := events s @ [Ev_decrypt encrypted]\<rparr>)
               | Inr password \<Rightarrow>
                   let transporter = createTransport account password in
                   (Normal (prepare_email c template transporter),
                    s\<lparr>events := events s @ [Ev_decrypt encrypted, Ev_createTransport transporter],
                      transporters := (transporters s)(smtpId \<mapsto> transporter)\<rparr>))))"
| "try_body E user (Await_email_insert c transporter subj body) s =
     (let account = accountInfo transporter;
          emailRecord = email_record E c account subj body (length (emails s))
      in case emailError E emailRecord of
           Some msg \<Rightarrow>
             (Normal (Done (error_result (enrollment_id (ctx_enrollment c))
                (''Failed to create email log: '' @ msg))),
              s\<lparr>events := events s @ [Ev_insert_email_failed msg]\<rparr>)
         | None \<Rightarrow>
             (Normal (Await_email_update c transporter subj (email_id emailRecord)
                (injectTracking E body (email_id emailRecord) (js_or (app_url E) ''http://localhost:3000''))),
              s\<lparr>emails := emails s @ [emailRecord],
                events := events s @ [Ev_insert_email (email_id emailRecord)]\<rparr>))"
| "try_body E user (Await_email_update c transporter subj i trackedBody) s =
     (Normal (Await_sendMail c transporter subj trackedBody),
      s\<lparr>emails := update_email_body i trackedBody (emails s)\<rparr>)"
| "try_body E user (Await_sendMail c transporter subj trackedBody) s =
     (let mail = mail_of c (accountInfo transporter) subj trackedBody;
          s' = s\<lparr>events := events s @ [Ev_sendMail mail]\<rparr>
      in case sendMail_error E transporter mail of
           Some msg \<Rightarrow> (Throw msg, s')
         | None \<Rightarrow> (Normal (Await_activity c transporter subj), s'))"
| "try_body E user (Await_activity c transporter subj) s =
     (Normal (Await_enrollment_update c
        (enrollment_updates E (current_step (ctx_enrollment c)) (steps (ctx_sequence c)))),
      s\<lparr>activities := activities s @ [activity_record c (accountInfo transporter) subj user]\<rparr>)"
| "try_body E user (Await_enrollment_update c updates) s =
     (Normal (Done (success_result (enrollment_id (ctx_enrollment c)) ''Email sent successfully'')),
      s\<lparr>sequence_enrollments :=
          update_enrollment (enrollment_id (ctx_enrollment c)) updates (sequence_enrollments s)\<rparr>)"

definition step :: "env \<Rightarrow> UserData \<Rightarrow> task \<Rightarrow> state \<Rightarrow> task \<times> state" where
  "step E user t s = (case try_body E user t s of (c, s') \<Rightarrow> (catch (task_id t) c, s'))"

text \<open>The number of \<^verbatim>\<open>await\<close>s a task can still reach.\<close>

fun awaits_left :: "task \<Rightarrow> nat" where
  "awaits_left (Done r) = 0"
| "awaits_left (Await_complete e) = 1"
| "awaits_left (Await_template c) = 8"
| "awaits_left (Await_account c template smtpId) = 7"
| "awaits_left (Await_email_insert c tr subj body) = 6"
| "awaits_left (Await_email_update c tr subj i tracked) = 5"
| "awaits_left (Await_sendMail c tr subj tracked) = 4"
| "awaits_left (Await_activity c tr subj) = 3"
| "awaits_left (Await_enrollment_update c u) = 2"

text \<open>A task that is awaited alone runs to its result.\<close>

function (sequential) run_task :: "env \<Rightarrow> UserData \<Rightarrow> task \<Rightarrow> state \<Rightarrow> enrollment_result \<times> state" where
  "run_task E user (Done r) s = (r, s)"
| "run_task E user t s = (case step E user t s of (t', s') \<Rightarrow> run_task E user t' s')"
  by pat_completeness auto
termination
  by (relation "measure (\<lambda>(E, user, t, s). awaits_left t)")
     (auto simp: step_def catch_def prepare_email_def Let_def
           split: option.splits sum.splits if_splits completion.splits)

definition processEnrollment ::
  "env \<Rightarrow> UserData \<Rightarrow> EnrollmentWithRelations \<Rightarrow> state \<Rightarrow> enrollment_result \<times> state" where
  "processEnrollment E user enrollment s = run_task E user (start enrollment) s"

subsection \<open>A batch: \<^verbatim>\<open>Promise.all(batch.map(e => processEnrollment(e, ...)))\<close>\<close>

text \<open>
  All tasks of a batch are started, in order; then the task whose awaited call answers
  first runs to its next \<^verbatim>\<open>await\<close>, and so on. A schedule is the order in which the calls
  answer: a list of positions in the batch. Whatever the schedule leaves unfinished is
  finished afterwards, position by position, so that every schedule describes a complete
  run of the batch and every complete run is described by a schedule.
\<close>

fun run_schedule :: "env \<Rightarrow> UserData \<Rightarrow> nat list \<Rightarrow> task list \<Rightarrow> state \<Rightarrow> task list \<times> state" where
  "run_schedule E user [] ts s = (ts, s)"
| "run_schedule E user (i # sched) ts s =
     (if i < length ts
      then (case step E user (ts ! i) s of (t', s') \<Rightarrow> run_schedule E user sched (ts[i := t']) s')
      else run_schedule E user sched ts s)"

fun finish :: "env \<Rightarrow> UserData \<Rightarrow> task list \<Rightarrow> state \<Rightarrow> enrollment_result list \<times> state" where
  "finish E user [] s = ([], s)"
| "finish E user (t # ts) s =
     (case run_task E user t s of (r, s') \<Rightarrow>
        (case finish E user ts s' of (rs, s'') \<Rightarrow> (r # rs, s'')))"

definition Promise_all ::
  "env \<Rightarrow> UserData \<Rightarrow> nat list \<Rightarrow> EnrollmentWithRelations list \<Rightarrow> state \<Rightarrow> enrollment_result list \<times> state" where
  "Promise_all E user sched batch s =
     (case run_schedule E user sched (map start batch) s of (ts, s') \<Rightarrow> finish E user ts s')"

subsection \<open>The route handler \<^verbatim>\<open>POST\<close>\<close>

definition BATCH_SIZE :: nat where
  "BATCH_SIZE = 5"

text \<open>
  \<^verbatim>\<open>for (let i = 0; i < enrollments.length; i += BATCH_SIZE)\<close>; the batches run one after
  the other, each with its own schedule (none left: the empty schedule).
\<close>

function process_batches ::
  "env \<Rightarrow> UserData \<Rightarrow> nat list list \<Rightarrow> EnrollmentWithRelations list \<Rightarrow> nat \<Rightarrow> enrollment_result list \<Rightarrow> state
     \<Rightarrow> enrollment_result list \<times> state" where
  "process_batches E user scheds enrollments i results s =
     (if i < length enrollments
      then
        (let batch = take BATCH_SIZE (drop i enrollments) in
         case Promise_all E user (case scheds of [] \<Rightarrow> [] | sched # _ \<Rightarrow> sched) batch s of
           (batchResults, s') \<Rightarrow>
             process_batches E user (tl scheds) enrollments (i + BATCH_SIZE) (results @ batchResults) s')
      else (results, s))"
  by pat_completeness auto
termination
  by (relation "measure (\<lambda>(E, user, scheds, enrollments, i, results, s). length enrollments - i)")
     (auto simp: BATCH_SIZE_def)

declare process_batches.simps [simp del]

text \<open>
  The query for the due enrollments: \<^verbatim>\<open>status = 'active'\<close> and \<^verbatim>\<open>next_send_at\<close> not after now
  or null, each row joined with its contact and its sequence.
\<close>

definition due :: "env \<Rightarrow> enrollment_row \<Rightarrow> bool" where
  "due E r = (row_status r = Active \<and> (case row_next_send_at r of None \<Rightarrow> True | Some t \<Rightarrow> t \<le> now E))"

definition joined :: "env \<Rightarrow> enrollment_row \<Rightarrow> EnrollmentWithRelations" where
  "joined E r =
     \<lparr>enrollment_id = row_id r, current_step = row_current_step r,
      contact = contacts E (row_contact_id r), sequence = email_sequences E (row_sequence_id r)\<rparr>"

definition due_enrollments :: "env \<Rightarrow> state \<Rightarrow> EnrollmentWithRelations list" where
  "due_enrollments E s = map (joined E) (filter (due E) (sequence_enrollments s))"

text \<open>The body of the response; a key that the JSON object does not have is \<open>None\<close>.\<close>

record response =
  http_status :: nat
  success :: "bool option"
  processed :: "nat option"
  successCount :: "nat option"
  failureCount :: "nat option"
  details :: "enrollment_result list option"
  response_message :: "string option"
  error :: "string option"

definition error_response :: "nat \<Rightarrow> string \<Rightarrow> response" where
  "error_response code msg =
     \<lparr>http_status = code, success = None, processed = None, successCount = None,
      failureCount = None, details = None, response_message = None, error = Some msg\<rparr>"

definition POST :: "env \<Rightarrow> UserData option \<Rightarrow> nat list list \<Rightarrow> state \<Rightarrow> response \<times> state" where
  "POST E user scheds s =
     (case user of
        None \<Rightarrow> (error_response 401 ''Unauthorized'', s)
      | Some u \<Rightarrow>
         (case enrollError E of
            Some msg \<Rightarrow> (error_response 500 msg, s)
          | None \<Rightarrow>
             (let enrollments = due_enrollments E s in
              if enrollments = [] then
                (\<lparr>http_status = 200, success = Some True, processed = Some 0, successCount = None,
                  failureCount = None, details = Some [],
                  response_message = Some ''No enrollments due for processing'', error = None\<rparr>, s)
              else
                (case process_batches E u scheds enrollments 0 [] (s\<lparr>transporters := Map.empty\<rparr>) of
                   (results, s') \<Rightarrow>
                     (\<lparr>http_status = 200, success = Some True, processed = Some (length results),
                       successCount = Some (length (filter (\<lambda>r. status r = St_success) results)),
                       failureCount = Some (length (filter (\<lambda>r. status r = St_error) results)),
                       details = Some results, response_message = None, error = None\<rparr>, s')))))"

text \<open>
  The response contract of the specification, in its words: a success response is
  \<^verbatim>\<open>{ success: bool, processed: int, successCount: int, failureCount: int, details: [...] }\<close>.
\<close>

definition response_contract :: "response \<Rightarrow> bool" where
  "response_contract r =
     (success r \<noteq> None \<and> processed r \<noteq> None \<and> successCount r \<noteq> None
      \<and> failureCount r \<noteq> None \<and> details r \<noteq> None)"

subsection \<open>Example data\<close>

text \<open>
  A sequence of two steps whose second template does not exist, one sending account, and
  enrollments at step 0 (ready to send), at step 1 (template missing) and at step 2 (past
  the last step).
\<close>

definition ex_contact :: Contact where
  "ex_contact = \<lparr>contact_id = ''c1'', email = Some ''a@x.io'', first_name = Some ''Ann'', last_name = None\<rparr>"

definition ex_step0 :: EmailSequenceStep where
  "ex_step0 = \<lparr>template_id = ''t1'', subject_override = None, delay_days = Some 0, delay_unit = Some ''days''\<rparr>"

definition ex_step1 :: EmailSequenceStep where
  "ex_step1 = \<lparr>template_id = ''t2'', subject_override = Some ''Hi'', delay_days = Some 2, delay_unit = Some ''hours''\<rparr>"

definition ex_sequence :: EmailSequence where
  "ex_sequence = \<lparr>sequence_name = ''S'', steps = [ex_step0, ex_step1], smtp_config_id = Some ''m1''\<rparr>"

definition ex_template :: EmailTemplate where
  "ex_template = \<lparr>subject = Some ''Hello'', body_html = Some ''Hi {{first_name}}{{last_name}}'', body_text = None\<rparr>"

definition ex_account :: SMTPConfig where
  "ex_account =
     \<lparr>account_id = ''m1'', organization_id = ''o1'', account_name = None, email_addr = Some ''s@x.io'',
      smtp_user = ''u'', smtp_host = ''h'', smtp_port = 465, smtp_pass_encrypted = Some ''enc''\<rparr>"

definition ex_env :: env where
  "ex_env =
     \<lparr>now = 1000000, tza = 3600000, app_url = None,
      email_templates = [''t1'' \<mapsto> ex_template],
      smtp_configs = [''m1'' \<mapsto> ex_account],
      contacts = [''c1'' \<mapsto> ex_contact],
      email_sequences = [''q1'' \<mapsto> ex_sequence],
      enrollError = None,
      decrypt = (\<lambda>c. Inr ''pw''),
      injectTracking = (\<lambda>body i url. body),
      emailError = (\<lambda>r. None),
      sendMail_error = (\<lambda>tr m. None)\<rparr>"

definition ex_user :: UserData where
  "ex_user = \<lparr>user_id = ''u1''\<rparr>"

definition ex_row :: "string \<Rightarrow> int \<Rightarrow> enrollment_row" where
  "ex_row i n =
     \<lparr>row_id = i, row_sequence_id = ''q1'', row_contact_id = ''c1'', row_current_step = n,
      row_status = Active, row_next_send_at = Some 5, row_updated_at = None\<rparr>"

definition ex_state :: "enrollment_row list \<Rightarrow> state" where
  "ex_state rows =
     \<lparr>sequence_enrollments = rows, emails = [], activities = [], transporters = Map.empty, events = []\<rparr>"

definition ex_enrollment :: "string \<Rightarrow> int \<Rightarrow> EnrollmentWithRelations" where
  "ex_enrollment i n = joined ex_env (ex_row i n)"

subsection \<open>Counting events\<close>

fun is_decrypt :: "event \<Rightarrow> bool" where
  "is_decrypt (Ev_decrypt c) = True"
| "is_decrypt ev = False"

fun is_createTransport :: "event \<Rightarrow> bool" where
  "is_createTransport (Ev_createTransport tr) = True"
| "is_createTransport ev = False"

fun is_sendMail :: "event \<Rightarrow> bool" where
  "is_sendMail (Ev_sendMail m) = True"
| "is_sendMail ev = False"

subsection \<open>Enrollments whose outcome does not depend on the schedule\<close>










text \<open>The rows of \<^verbatim>\<open>sequence_enrollments\<close> with a given id.\<close>

definition rows_of :: "string \<Rightarrow> state \<Rightarrow> enrollment_row list" where
  "rows_of x s = filter (\<lambda>row. row_id row = x) (sequence_enrollments s)"

section \<open>Properties\<close>


lemmas ex_defs = ex_contact_def ex_step0_def ex_step1_def ex_sequence_def ex_template_def
  ex_account_def ex_env_def ex_user_def ex_row_def ex_state_def ex_enrollment_def joined_def

lemmas run_defs = processEnrollment_def start_def start_body_def catch_def step_def
  prepare_email_def Let_def success_result_def error_result_def

subsection \<open>Arithmetic on time values\<close>








subsection \<open>What a successful send writes\<close>

lemma sent_updates:
  assumes "processEnrollment E user e s = (r, s')"
    and "status r = St_success" and "message r = ''Email sent successfully''"
  shows "\<exists>sq. sequence e = Some sq \<and>
     sequence_enrollments s' =
       update_enrollment (enrollment_id e) (enrollment_updates E (current_step e) (steps sq))
         (sequence_enrollments s)"
  using assms
  by (auto simp: run_defs split: option.splits if_splits sum.splits)



subsection \<open>The unit of the delay\<close>



subsection \<open>The subject of a message\<close>

lemma effective_subject_cases:
  "effective_subject st tpl =
     (if truthy (subject_override st) then the (subject_override st)
      else if truthy (subject tpl) then the (subject tpl)
      else ''(No Subject)'')"
  by (auto simp: effective_subject_def js_or_def truthy_def split: option.splits)

lemma sendMail_subject:
  assumes "processEnrollment E user e s = (r, s')"
    and "Ev_sendMail m \<in> set (drop (length (events s)) (events s'))"
  shows "\<exists>sq st tpl. sequence e = Some sq \<and> js_index (steps sq) (current_step e) = Some st
      \<and> email_templates E (template_id st) = Some tpl
      \<and> mail_subject m = effective_subject st tpl"
  using assms
  by (auto simp: run_defs mail_of_def split: option.splits if_splits sum.splits)

text \<open>
  C8. The subject of every message that \<^verbatim>\<open>processEnrollment\<close> hands to the transport is the
  subject override of the current step unless that is null or empty, else the subject of
  the step's template unless that is null or empty, else \<^verbatim>\<open>(No Subject)\<close>.
\<close>

theorem C8_effective_subject:
  assumes "processEnrollment E user e s = (r, s')"
    and "Ev_sendMail m \<in> set (drop (length (events s)) (events s'))"
  shows "\<exists>sq st tpl. sequence e = Some sq \<and> js_index (steps sq) (current_step e) = Some st
      \<and> email_templates E (template_id st) = Some tpl
      \<and> mail_subject m =
          (if truthy (subject_override st) then the (subject_override st)
           else if truthy (subject tpl) then the (subject tpl)
           else ''(No Subject)'')"
  using sendMail_subject[OF assms] unfolding effective_subject_cases .

theorem C8_effective_subject_witness:
  "Ev_sendMail \<lparr>mail_from = sender ex_account, mail_to = ''a@x.io'', mail_subject = ''Hello'',
                mail_html = ''Hi Ann''\<rparr>
     \<in> set (drop (length (events (ex_state [ex_row ''e1'' 0])))
         (events (snd (processEnrollment ex_env ex_user (ex_enrollment ''e1'' 0) (ex_state [ex_row ''e1'' 0])))))
   \<and> (\<exists>sq st tpl. sequence (ex_enrollment ''e1'' 0) = Some sq
      \<and> js_index (steps sq) (current_step (ex_enrollment ''e1'' 0)) = Some st
      \<and> email_templates ex_env (template_id st) = Some tpl
      \<and> ''Hello'' =
          (if truthy (subject_override st) then the (subject_override st)
           else if truthy (subject tpl) then the (subject tpl)
           else ''(No Subject)''))"
proof -
  let ?s = "ex_state [ex_row ''e1'' 0]"
  let ?p = "processEnrollment ex_env ex_user (ex_enrollment ''e1'' 0) ?s"
  let ?m = "\<lparr>mail_from = sender ex_account, mail_to = ''a@x.io'', mail_subject = ''Hello'',
             mail_html = ''Hi Ann''\<rparr>"
  have run: "?p = (fst ?p, snd ?p)" by simp
  have ev: "Ev_sendMail ?m \<in> set (drop (length (events ?s)) (events (snd ?p)))"
    by (simp add: ex_defs run_defs js_index_def mail_of_def effective_subject_def
        effective_body_def js_or_def replace_global_def createTransport_def)
  have "\<exists>sq st tpl. sequence (ex_enrollment ''e1'' 0) = Some sq
      \<and> js_index (steps sq) (current_step (ex_enrollment ''e1'' 0)) = Some st
      \<and> email_templates ex_env (template_id st) = Some tpl
      \<and> ''Hello'' =
          (if truthy (subject_override st) then the (subject_override st)
           else if truthy (subject tpl) then the (subject tpl)
           else ''(No Subject)'')"
    using C8_effective_subject[OF run ev] by simp
  with ev show ?thesis by blast
qed

subsection \<open>The map of transporters, and the replacement of placeholders\<close>

text \<open>
  A call that finds the transporter of its account in \<^verbatim>\<open>transporters\<close> neither decrypts
  nor constructs a transport, and leaves the map as it is.
\<close>

lemma cached_transporter_reused:
  assumes "processEnrollment E u e s = (r, s')"
    and "sequence e = Some sq" and "smtp_config_id sq = Some smtpId"
    and "transporters s smtpId = Some transporter"
  shows "filter is_decrypt (drop (length (events s)) (events s')) = []
       \<and> filter is_createTransport (drop (length (events s)) (events s')) = []
       \<and> transporters s' = transporters s"
  using assms
  by (auto simp: run_defs split: option.splits if_splits sum.splits)

text \<open>
  C4. Two due enrollments of one sequence, hence of one sending account, in the same
  batch: when both templates have been fetched before either account has, each call finds
  \<^verbatim>\<open>transporters\<close> empty, and the run decrypts the password twice and constructs two
  transports. When the first call has finished before the second resumes, the run
  decrypts once and constructs one transport.
\<close>

theorem C4_two_decryptions_in_one_batch:
  "due_enrollments ex_env (ex_state [ex_row ''e1'' 0, ex_row ''e2'' 0])
     = [ex_enrollment ''e1'' 0, ex_enrollment ''e2'' 0]
   \<and> map_option smtp_config_id (sequence (ex_enrollment ''e1'' 0))
     = map_option smtp_config_id (sequence (ex_enrollment ''e2'' 0))
   \<and> length (filter is_decrypt (events (snd (POST ex_env (Some ex_user) [[0, 1, 0, 1]]
        (ex_state [ex_row ''e1'' 0, ex_row ''e2'' 0]))))) = 2
   \<and> length (filter is_createTransport (events (snd (POST ex_env (Some ex_user) [[0, 1, 0, 1]]
        (ex_state [ex_row ''e1'' 0, ex_row ''e2'' 0]))))) = 2
   \<and> length (filter is_decrypt (events (snd (POST ex_env (Some ex_user) [[0, 0, 0, 0, 0, 0, 0]]
        (ex_state [ex_row ''e1'' 0, ex_row ''e2'' 0]))))) = 1
   \<and> length (filter is_createTransport (events (snd (POST ex_env (Some ex_user) [[0, 0, 0, 0, 0, 0, 0]]
        (ex_state [ex_row ''e1'' 0, ex_row ''e2'' 0]))))) = 1"
  by code_simp

text \<open>A replacement text without a dollar sign stands for itself.\<close>

lemma GetSubstitution_plain:
  "CHR ''$'' \<notin> set r \<Longrightarrow> GetSubstitution m pre post r = r"
  by (induction m pre post r rule: GetSubstitution.induct) auto

text \<open>
  C6. The replacement text of \<^verbatim>\<open>String.prototype.replace\<close> is a pattern: a first name \<^verbatim>\<open>$&\<close>
  puts the placeholder back, and a first name \<^verbatim>\<open>A$$B\<close> is inserted as \<^verbatim>\<open>A$B\<close>. A null last name
  is replaced by the empty string.
\<close>

theorem C6_dollar_in_contact_field:
  "effective_body \<lparr>subject = None, body_html = Some ''Hi {{first_name}}{{last_name}}!'', body_text = None\<rparr>
     \<lparr>contact_id = ''c1'', email = Some ''a@x.io'', first_name = Some ''$&'', last_name = None\<rparr>
     = ''Hi {{first_name}}!''
   \<and> effective_body \<lparr>subject = None, body_html = Some ''Hi {{first_name}}{{last_name}}!'', body_text = None\<rparr>
     \<lparr>contact_id = ''c1'', email = Some ''a@x.io'', first_name = Some ''A$$B'', last_name = None\<rparr>
     = ''Hi A$B!''"
  by code_simp

subsection \<open>An enrollment past its last step\<close>

lemma update_enrollment_idem:
  "update_enrollment i \<lparr>upd_current_step = None, upd_updated_at = t, upd_next_send_at = None,
       upd_status = Some Completed\<rparr>
     (update_enrollment i \<lparr>upd_current_step = None, upd_updated_at = t, upd_next_send_at = None,
       upd_status = Some Completed\<rparr> rows)
   = update_enrollment i \<lparr>upd_current_step = None, upd_updated_at = t, upd_next_send_at = None,
       upd_status = Some Completed\<rparr> rows"
  by (simp add: update_enrollment_def apply_update_def)

lemma run_complete:
  assumes "contact e = Some c" and "truthy (email c)" and "sequence e = Some sq"
    and "int (length (steps sq)) \<le> current_step e"
  shows "processEnrollment E user e s =
     (\<lparr>result_id = enrollment_id e, status = St_success,
       message = ''Sequence completed (no more steps)''\<rparr>,
      s\<lparr>sequence_enrollments :=
          update_enrollment (enrollment_id e)
            \<lparr>upd_current_step = None, upd_updated_at = now E, upd_next_send_at = None,
             upd_status = Some Completed\<rparr> (sequence_enrollments s)\<rparr>)"
  using assms
  by (auto simp: run_defs truthy_def split: option.splits)

text \<open>
  C1 (as amended). For an enrollment whose contact has a non-empty email address and
  whose \<^verbatim>\<open>current_step\<close> is at or past the end of its sequence, \<^verbatim>\<open>processEnrollment\<close> returns
  the success \<^verbatim>\<open>Sequence completed (no more steps)\<close>, makes no call to the transport and
  writes nothing to \<^verbatim>\<open>emails\<close> and \<^verbatim>\<open>activities\<close>; afterwards every row with the enrollment's
  id has the status completed, and the rows with other ids are as before. Running it
  again gives the same result and leaves the state as the first run left it.
\<close>

theorem C1_completion:
  assumes "contact e = Some c" and "truthy (email c)" and "sequence e = Some sq"
    and "int (length (steps sq)) \<le> current_step e"
  shows "fst (processEnrollment E user e s) =
           \<lparr>result_id = enrollment_id e, status = St_success,
            message = ''Sequence completed (no more steps)''\<rparr>
   \<and> events (snd (processEnrollment E user e s)) = events s
   \<and> emails (snd (processEnrollment E user e s)) = emails s
   \<and> activities (snd (processEnrollment E user e s)) = activities s
   \<and> map row_id (sequence_enrollments (snd (processEnrollment E user e s)))
       = map row_id (sequence_enrollments s)
   \<and> (\<forall>row \<in> set (sequence_enrollments (snd (processEnrollment E user e s))).
         row_id row = enrollment_id e \<longrightarrow> row_status row = Completed)
   \<and> (\<forall>x. x \<noteq> enrollment_id e \<longrightarrow> rows_of x (snd (processEnrollment E user e s)) = rows_of x s)
   \<and> processEnrollment E user e (snd (processEnrollment E user e s)) = processEnrollment E user e s"
proof -
  let ?u = "\<lparr>upd_current_step = None, upd_updated_at = now E, upd_next_send_at = None,
             upd_status = Some Completed\<rparr>"
  note run = run_complete[OF assms, of E user]
  have ids: "map row_id (update_enrollment (enrollment_id e) ?u rows) = map row_id rows" for rows
    by (simp add: update_enrollment_def apply_update_def comp_def)
  have compl: "\<forall>row \<in> set (update_enrollment (enrollment_id e) ?u rows).
      row_id row = enrollment_id e \<longrightarrow> row_status row = Completed" for rows
    by (auto simp: update_enrollment_def apply_update_def)
  have other: "filter (\<lambda>row. row_id row = x) (update_enrollment (enrollment_id e) ?u rows)
      = filter (\<lambda>row. row_id row = x) rows" if "x \<noteq> enrollment_id e" for x rows
    using that by (induction rows) (auto simp: update_enrollment_def apply_update_def)
  have again: "processEnrollment E user e (snd (processEnrollment E user e s)) = processEnrollment E user e s"
    by (simp add: run update_enrollment_idem)
  show ?thesis
    using again ids compl other by (simp add: run rows_of_def)
qed

theorem C1_completion_witness:
  "contact (ex_enrollment ''e1'' 2) = Some ex_contact \<and> truthy (email ex_contact)
   \<and> sequence (ex_enrollment ''e1'' 2) = Some ex_sequence
   \<and> int (length (steps ex_sequence)) \<le> current_step (ex_enrollment ''e1'' 2)
   \<and> status (fst (processEnrollment ex_env ex_user (ex_enrollment ''e1'' 2) (ex_state [ex_row ''e1'' 2])))
       = St_success
   \<and> map row_status (sequence_enrollments
        (snd (processEnrollment ex_env ex_user (ex_enrollment ''e1'' 2) (ex_state [ex_row ''e1'' 2]))))
       = [Completed]
   \<and> events (snd (processEnrollment ex_env ex_user (ex_enrollment ''e1'' 2) (ex_state [ex_row ''e1'' 2]))) = []"
proof -
  have 1: "contact (ex_enrollment ''e1'' 2) = Some ex_contact"
    by (simp add: ex_enrollment_def joined_def ex_env_def ex_row_def)
  have 2: "truthy (email ex_contact)"
    by (simp add: truthy_def ex_contact_def)
  have 3: "sequence (ex_enrollment ''e1'' 2) = Some ex_sequence"
    by (simp add: ex_enrollment_def joined_def ex_env_def ex_row_def)
  have 4: "int (length (steps ex_sequence)) \<le> current_step (ex_enrollment ''e1'' 2)"
    by (simp add: ex_enrollment_def joined_def ex_sequence_def ex_row_def)
  have rows: "sequence_enrollments (snd (processEnrollment ex_env ex_user (ex_enrollment ''e1'' 2)
      (ex_state [ex_row ''e1'' 2]))) \<noteq> []"
    using C1_completion[OF 1 2 3 4, of ex_env ex_user "ex_state [ex_row ''e1'' 2]"]
    by (auto simp: ex_state_def)
  have "map row_status (sequence_enrollments
        (snd (processEnrollment ex_env ex_user (ex_enrollment ''e1'' 2) (ex_state [ex_row ''e1'' 2]))))
       = [Completed]"
    using C1_completion[OF 1 2 3 4, of ex_env ex_user "ex_state [ex_row ''e1'' 2]"]
    by (cases "sequence_enrollments
        (snd (processEnrollment ex_env ex_user (ex_enrollment ''e1'' 2) (ex_state [ex_row ''e1'' 2])))")
       (auto simp: ex_state_def ex_row_def ex_enrollment_def joined_def)
  then show ?thesis
    using C1_completion[OF 1 2 3 4, of ex_env ex_user "ex_state [ex_row ''e1'' 2]"] 1 2 3 4
    by (simp add: ex_state_def)
qed

text \<open>
  C1 as stated fails twice. The row keeps the \<^verbatim>\<open>next_send_at\<close> it had (here 5): the update
  of this branch has no such key. And the check of the contact comes first: without a
  contact the result is an error and the row is not touched.
\<close>

theorem C1_counterexample:
  "sequence (ex_enrollment ''e1'' 2) = Some ex_sequence
   \<and> int (length (steps ex_sequence)) \<le> current_step (ex_enrollment ''e1'' 2)
   \<and> map row_next_send_at (sequence_enrollments
        (snd (processEnrollment ex_env ex_user (ex_enrollment ''e1'' 2) (ex_state [ex_row ''e1'' 2]))))
       = [Some 5]
   \<and> status (fst (processEnrollment ex_env ex_user ((ex_enrollment ''e1'' 2)\<lparr>contact := None\<rparr>)
        (ex_state [ex_row ''e1'' 2]))) = St_error
   \<and> map row_status (sequence_enrollments
        (snd (processEnrollment ex_env ex_user ((ex_enrollment ''e1'' 2)\<lparr>contact := None\<rparr>)
          (ex_state [ex_row ''e1'' 2]))))
       = [Active]"
  by (simp add: ex_defs run_defs update_enrollment_def apply_update_def)

subsection \<open>The response of \<^verbatim>\<open>POST\<close>\<close>

lemma count_statuses:
  "length (filter (\<lambda>r. status r = St_success) rs) + length (filter (\<lambda>r. status r = St_error) rs)
     = length rs"
proof (induction rs)
  case Nil
  show ?case by simp
next
  case (Cons r rs)
  then show ?case by (cases "status r") simp_all
qed

text \<open>
  C7 (as amended). When no enrollment is due, \<^verbatim>\<open>POST\<close> answers 200 with \<^verbatim>\<open>success: true\<close>,
  \<^verbatim>\<open>processed: 0\<close>, \<^verbatim>\<open>details: []\<close> and a message, and with neither \<^verbatim>\<open>successCount\<close> nor
  \<^verbatim>\<open>failureCount\<close>; the state is untouched, so nothing is sent. When some enrollment is
  due, the answer has all five keys of the contract, and the two counts add up to
  \<^verbatim>\<open>processed\<close>.
\<close>

theorem C7_empty_queue:
  assumes "enrollError E = None"
  shows "(due_enrollments E s = [] \<longrightarrow>
            POST E (Some u) scheds s =
              (\<lparr>http_status = 200, success = Some True, processed = Some 0, successCount = None,
                failureCount = None, details = Some [],
                response_message = Some ''No enrollments due for processing'', error = None\<rparr>, s))
       \<and> (due_enrollments E s \<noteq> [] \<longrightarrow>
            (\<exists>results n m. fst (POST E (Some u) scheds s) =
               \<lparr>http_status = 200, success = Some True, processed = Some (length results),
                successCount = Some n, failureCount = Some m, details = Some results,
                response_message = None, error = None\<rparr>
              \<and> n + m = length results
              \<and> response_contract (fst (POST E (Some u) scheds s))))"
  using assms
  by (auto simp: POST_def Let_def response_contract_def count_statuses split: prod.splits)

theorem C7_empty_queue_witness:
  "enrollError ex_env = None \<and> due_enrollments ex_env (ex_state []) = []
   \<and> processed (fst (POST ex_env (Some ex_user) [] (ex_state []))) = Some 0
   \<and> events (snd (POST ex_env (Some ex_user) [] (ex_state []))) = []"
proof -
  have 1: "enrollError ex_env = None" by (simp add: ex_env_def)
  have 2: "due_enrollments ex_env (ex_state []) = []"
    by (simp add: due_enrollments_def ex_state_def)
  show ?thesis
    using C7_empty_queue[OF 1, of "ex_state []" ex_user "[]"] 1 2
    by (simp add: ex_state_def)
qed

text \<open>
  C7 as stated fails: the answer for the empty queue has no \<^verbatim>\<open>successCount\<close> and no
  \<^verbatim>\<open>failureCount\<close>.
\<close>

theorem C7_counterexample:
  "due_enrollments ex_env (ex_state []) = []
   \<and> successCount (fst (POST ex_env (Some ex_user) [] (ex_state []))) = None
   \<and> failureCount (fst (POST ex_env (Some ex_user) [] (ex_state []))) = None
   \<and> \<not> response_contract (fst (POST ex_env (Some ex_user) [] (ex_state [])))"
  by (simp add: POST_def due_enrollments_def ex_state_def ex_env_def response_contract_def)

subsection \<open>The status of an enrollment\<close>

lemma run_rows:
  assumes "processEnrollment E user e s = (r, s')"
  shows "sequence_enrollments s' = sequence_enrollments s
     \<or> (\<exists>sq. sequence e = Some sq \<and> int (length (steps sq)) \<le> current_step e
          \<and> sequence_enrollments s' =
              update_enrollment (enrollment_id e)
                \<lparr>upd_current_step = None, upd_updated_at = now E, upd_next_send_at = None,
                 upd_status = Some Completed\<rparr> (sequence_enrollments s))
     \<or> (\<exists>sq. sequence e = Some sq \<and> status r = St_success
          \<and> message r = ''Email sent successfully''
          \<and> sequence_enrollments s' =
              update_enrollment (enrollment_id e)
                (enrollment_updates E (current_step e) (steps sq)) (sequence_enrollments s))"
  using assms
  by (auto simp: run_defs split: option.splits if_splits sum.splits)

lemma js_index_past_end: "int (length xs) \<le> i \<Longrightarrow> js_index xs (i + 1) = None"
  by (simp add: js_index_def)

lemma update_enrollment_status:
  assumes "i < length rows"
    and "row_status (update_enrollment k u rows ! i) \<noteq> row_status (rows ! i)"
  shows "upd_status u = Some (row_status (update_enrollment k u rows ! i))"
  using assms
  by (auto simp: update_enrollment_def apply_update_def split: if_splits option.splits)

text \<open>
  C9. After a send, when the step after the one just sent exists, the update of the
  enrollment has the keys \<^verbatim>\<open>current_step\<close>, \<^verbatim>\<open>updated_at\<close> and \<^verbatim>\<open>next_send_at\<close> and no key
  \<^verbatim>\<open>status\<close>: the status of every row is what it was. In any run, a row whose status
  changes becomes completed, and then the sequence has no step after the current one.
\<close>

theorem C9_status_only_on_completion:
  assumes "processEnrollment E user e s = (r, s')"
  shows "(status r = St_success \<and> message r = ''Email sent successfully''
          \<and> (\<exists>sq nextStep. sequence e = Some sq \<and> js_index (steps sq) (current_step e + 1) = Some nextStep)
          \<longrightarrow> (\<exists>u t. sequence_enrollments s' = update_enrollment (enrollment_id e) u (sequence_enrollments s)
                 \<and> upd_status u = None \<and> upd_current_step u = Some (current_step e + 1)
                 \<and> upd_updated_at u = now E \<and> upd_next_send_at u = Some (Some t))
              \<and> map row_status (sequence_enrollments s') = map row_status (sequence_enrollments s))
       \<and> length (sequence_enrollments s') = length (sequence_enrollments s)
       \<and> (\<forall>i < length (sequence_enrollments s).
            row_status (sequence_enrollments s' ! i) \<noteq> row_status (sequence_enrollments s ! i)
            \<longrightarrow> row_status (sequence_enrollments s' ! i) = Completed
                \<and> (\<forall>sq. sequence e = Some sq \<longrightarrow> js_index (steps sq) (current_step e + 1) = None))"
proof -
  have sent: "\<exists>u t. sequence_enrollments s' = update_enrollment (enrollment_id e) u (sequence_enrollments s)
                 \<and> upd_status u = None \<and> upd_current_step u = Some (current_step e + 1)
                 \<and> upd_updated_at u = now E \<and> upd_next_send_at u = Some (Some t)"
    and same: "map row_status (sequence_enrollments s') = map row_status (sequence_enrollments s)"
    if ok: "status r = St_success" "message r = ''Email sent successfully''"
      and sq: "sequence e = Some sq" and nxt: "js_index (steps sq) (current_step e + 1) = Some nextStep"
    for sq nextStep
  proof -
    from sent_updates[OF assms ok] sq
    have rows: "sequence_enrollments s' =
        update_enrollment (enrollment_id e) (enrollment_updates E (current_step e) (steps sq))
          (sequence_enrollments s)" by simp
    have u: "enrollment_updates E (current_step e) (steps sq) =
        \<lparr>upd_current_step = Some (current_step e + 1), upd_updated_at = now E,
         upd_next_send_at = Some (Some (next_send_at_after E nextStep)), upd_status = None\<rparr>"
      using nxt by (simp add: enrollment_updates_def Let_def)
    show "\<exists>u t. sequence_enrollments s' = update_enrollment (enrollment_id e) u (sequence_enrollments s)
                 \<and> upd_status u = None \<and> upd_current_step u = Some (current_step e + 1)
                 \<and> upd_updated_at u = now E \<and> upd_next_send_at u = Some (Some t)"
      using rows u by (intro exI[of _ "enrollment_updates E (current_step e) (steps sq)"]
          exI[of _ "next_send_at_after E nextStep"]) simp
    show "map row_status (sequence_enrollments s') = map row_status (sequence_enrollments s)"
      using rows u by (simp add: update_enrollment_def apply_update_def)
  qed
  have len: "length (sequence_enrollments s') = length (sequence_enrollments s)"
    using run_rows[OF assms] by (auto simp: update_enrollment_def)
  have changed: "row_status (sequence_enrollments s' ! i) = Completed
      \<and> (\<forall>sq. sequence e = Some sq \<longrightarrow> js_index (steps sq) (current_step e + 1) = None)"
    if i: "i < length (sequence_enrollments s)"
      and ne: "row_status (sequence_enrollments s' ! i) \<noteq> row_status (sequence_enrollments s ! i)"
    for i
  proof -
    consider (same) "sequence_enrollments s' = sequence_enrollments s"
      | (complete) sq where "sequence e = Some sq" "int (length (steps sq)) \<le> current_step e"
          "sequence_enrollments s' =
              update_enrollment (enrollment_id e)
                \<lparr>upd_current_step = None, upd_updated_at = now E, upd_next_send_at = None,
                 upd_status = Some Completed\<rparr> (sequence_enrollments s)"
      | (sent) sq where "sequence e = Some sq"
          "sequence_enrollments s' =
              update_enrollment (enrollment_id e)
                (enrollment_updates E (current_step e) (steps sq)) (sequence_enrollments s)"
      using run_rows[OF assms] by blast
    then show ?thesis
    proof cases
      case same
      with ne show ?thesis by simp
    next
      case complete
      from update_enrollment_status[OF i ne[unfolded complete(3)]]
      have "row_status (sequence_enrollments s' ! i) = Completed"
        by (simp add: complete(3))
      with complete(1,2) show ?thesis by (simp add: js_index_past_end)
    next
      case sent
      from update_enrollment_status[OF i ne[unfolded sent(2)]]
      have st: "upd_status (enrollment_updates E (current_step e) (steps sq))
          = Some (row_status (sequence_enrollments s' ! i))"
        by (simp add: sent(2))
      then show ?thesis
        using sent(1)
        by (auto simp: enrollment_updates_def Let_def split: option.splits)
    qed
  qed
  show ?thesis
    using sent same len changed by blast
qed

theorem C9_status_only_on_completion_witness:
  "status (fst (processEnrollment ex_env ex_user (ex_enrollment ''e1'' 0) (ex_state [ex_row ''e1'' 0])))
     = St_success
   \<and> js_index (steps ex_sequence) (current_step (ex_enrollment ''e1'' 0) + 1) = Some ex_step1
   \<and> map row_status (sequence_enrollments
        (snd (processEnrollment ex_env ex_user (ex_enrollment ''e1'' 0) (ex_state [ex_row ''e1'' 0]))))
     = [Active]"
proof -
  let ?p = "processEnrollment ex_env ex_user (ex_enrollment ''e1'' 0) (ex_state [ex_row ''e1'' 0])"
  have run: "?p = (fst ?p, snd ?p)" by simp
  have ok: "status (fst ?p) = St_success"
    by (simp add: ex_defs run_defs js_index_def)
  have msg: "message (fst ?p) = ''Email sent successfully''"
    by (simp add: ex_defs run_defs js_index_def)
  have sq: "sequence (ex_enrollment ''e1'' 0) = Some ex_sequence"
    by (simp add: ex_enrollment_def joined_def ex_env_def ex_row_def)
  have nxt: "js_index (steps ex_sequence) (current_step (ex_enrollment ''e1'' 0) + 1) = Some ex_step1"
    by (simp add: ex_enrollment_def joined_def ex_row_def ex_sequence_def js_index_def)
  have "map row_status (sequence_enrollments (snd ?p))
      = map row_status (sequence_enrollments (ex_state [ex_row ''e1'' 0]))"
    using C9_status_only_on_completion[OF run] ok msg sq nxt by blast
  then have "map row_status (sequence_enrollments (snd ?p)) = [Active]"
    by (simp add: ex_state_def ex_row_def)
  with ok nxt show ?thesis by blast
qed

subsection \<open>The order of the insert into \<^verbatim>\<open>emails\<close> and the send\<close>

lemma update_email_body_nth:
  "n < length rows \<Longrightarrow> email_id (update_email_body i b rows ! n) = email_id (rows ! n)"
  "n < length rows \<Longrightarrow> email_enrollment_id (update_email_body i b rows ! n) = email_enrollment_id (rows ! n)"
  by (simp_all add: update_email_body_def)

lemma update_email_body_length: "length (update_email_body i b rows) = length rows"
  by (simp add: update_email_body_def)

text \<open>
  The events of one call: decryptions and constructions of a transport first, then
  nothing, or a failed insert into \<^verbatim>\<open>emails\<close>, or a successful insert followed by the send.
\<close>

lemma run_events:
  assumes "processEnrollment E user e s = (r, s')"
  shows "\<exists>evs. events s' = events s @ evs \<and>
     (let tail = dropWhile (\<lambda>ev. is_decrypt ev \<or> is_createTransport ev) evs in
        tail = [] \<and> emails s' = emails s
        \<or> (\<exists>msg. tail = [Ev_insert_email_failed msg] \<and> status r = St_error
              \<and> message r = ''Failed to create email log: '' @ msg \<and> emails s' = emails s)
        \<or> (\<exists>m. tail = [Ev_insert_email (length (emails s)), Ev_sendMail m]
              \<and> (\<exists>row. emailError E row = None)
              \<and> length (emails s) < length (emails s')
              \<and> email_id (emails s' ! length (emails s)) = length (emails s)
              \<and> email_enrollment_id (emails s' ! length (emails s)) = enrollment_id e))"
  using assms
  by (auto simp: run_defs update_email_body_nth update_email_body_length email_record_def nth_append
      split: option.splits if_splits sum.splits)

text \<open>
  C5. In the events of a call of \<^verbatim>\<open>processEnrollment\<close>, a send comes directly after the
  successful insert of the row of \<^verbatim>\<open>emails\<close> that carries the enrollment's id, and that row
  is in the table. When the insert fails, the call makes no send, adds no row and returns
  the error \<^verbatim>\<open>Failed to create email log: ...\<close>; in particular, when the database rejects
  every insert into \<^verbatim>\<open>emails\<close>, no call sends.
\<close>

theorem C5_log_row_before_send:
  assumes "processEnrollment E user e s = (r, s')"
  shows "\<exists>evs. events s' = events s @ evs
     \<and> (\<forall>i m. i < length evs \<and> evs ! i = Ev_sendMail m \<longrightarrow>
            0 < i \<and> evs ! (i - 1) = Ev_insert_email (length (emails s))
            \<and> length (emails s) < length (emails s')
            \<and> email_id (emails s' ! length (emails s)) = length (emails s)
            \<and> email_enrollment_id (emails s' ! length (emails s)) = enrollment_id e)
     \<and> (\<forall>msg. Ev_insert_email_failed msg \<in> set evs \<longrightarrow>
            status r = St_error \<and> message r = ''Failed to create email log: '' @ msg
            \<and> (\<forall>m. Ev_sendMail m \<notin> set evs) \<and> emails s' = emails s)
     \<and> ((\<forall>row. emailError E row \<noteq> None) \<longrightarrow> (\<forall>m. Ev_sendMail m \<notin> set evs))"
proof -
  let ?P = "\<lambda>ev. is_decrypt ev \<or> is_createTransport ev"
  from run_events[OF assms] obtain evs where evs: "events s' = events s @ evs"
    and tail: "dropWhile ?P evs = [] \<and> emails s' = emails s
        \<or> (\<exists>msg. dropWhile ?P evs = [Ev_insert_email_failed msg] \<and> status r = St_error
              \<and> message r = ''Failed to create email log: '' @ msg \<and> emails s' = emails s)
        \<or> (\<exists>m. dropWhile ?P evs = [Ev_insert_email (length (emails s)), Ev_sendMail m]
              \<and> (\<exists>row. emailError E row = None)
              \<and> length (emails s) < length (emails s')
              \<and> email_id (emails s' ! length (emails s)) = length (emails s)
              \<and> email_enrollment_id (emails s' ! length (emails s)) = enrollment_id e)"
    unfolding Let_def by blast
  define pre where "pre = takeWhile ?P evs"
  define tl where "tl = dropWhile ?P evs"
  have split: "evs = pre @ tl"
    by (simp add: pre_def tl_def)
  have pre: "is_decrypt ev \<or> is_createTransport ev" if "ev \<in> set pre" for ev
    using that set_takeWhileD[of ev ?P evs] by (simp add: pre_def)
  have pre_no_send: "Ev_sendMail m \<notin> set pre" for m
    using pre[of "Ev_sendMail m"] by auto
  have pre_no_fail: "Ev_insert_email_failed msg \<notin> set pre" for msg
    using pre[of "Ev_insert_email_failed msg"] by auto
  have pre_nth: "pre ! i \<noteq> Ev_sendMail m" if "i < length pre" for i m
    using pre_no_send[of m] that nth_mem[of i pre] by metis
  from tail consider (none) "tl = []" "emails s' = emails s"
    | (failed) msg where "tl = [Ev_insert_email_failed msg]" "status r = St_error"
        "message r = ''Failed to create email log: '' @ msg" "emails s' = emails s"
    | (sent) m where "tl = [Ev_insert_email (length (emails s)), Ev_sendMail m]"
        "\<exists>row. emailError E row = None"
        "length (emails s) < length (emails s')"
        "email_id (emails s' ! length (emails s)) = length (emails s)"
        "email_enrollment_id (emails s' ! length (emails s)) = enrollment_id e"
    unfolding tl_def by blast
  then have "(\<forall>i m. i < length evs \<and> evs ! i = Ev_sendMail m \<longrightarrow>
            0 < i \<and> evs ! (i - 1) = Ev_insert_email (length (emails s))
            \<and> length (emails s) < length (emails s')
            \<and> email_id (emails s' ! length (emails s)) = length (emails s)
            \<and> email_enrollment_id (emails s' ! length (emails s)) = enrollment_id e)
     \<and> (\<forall>msg. Ev_insert_email_failed msg \<in> set evs \<longrightarrow>
            status r = St_error \<and> message r = ''Failed to create email log: '' @ msg
            \<and> (\<forall>m. Ev_sendMail m \<notin> set evs) \<and> emails s' = emails s)
     \<and> ((\<forall>row. emailError E row \<noteq> None) \<longrightarrow> (\<forall>m. Ev_sendMail m \<notin> set evs))"
  proof cases
    case none
    then show ?thesis
      using pre_no_send pre_no_fail pre_nth by (auto simp: split)
  next
    case failed
    then show ?thesis
      using pre_no_send pre_no_fail pre_nth by (auto simp: split nth_append)
  next
    case sent
    have idx: "i = Suc (length pre)" if "i < length evs" "evs ! i = Ev_sendMail m'" for i m'
    proof -
      have "\<not> i < length pre" using pre_nth that by (auto simp: split nth_append)
      moreover have "i - length pre \<noteq> 0"
        using that calculation by (auto simp: split nth_append sent(1))
      moreover have "i < length pre + 2" using that by (simp add: split sent(1))
      ultimately show ?thesis by linarith
    qed
    have 1: "\<forall>i m. i < length evs \<and> evs ! i = Ev_sendMail m \<longrightarrow>
            0 < i \<and> evs ! (i - 1) = Ev_insert_email (length (emails s))
            \<and> length (emails s) < length (emails s')
            \<and> email_id (emails s' ! length (emails s)) = length (emails s)
            \<and> email_enrollment_id (emails s' ! length (emails s)) = enrollment_id e"
    proof (intro allI impI, elim conjE)
      fix i m'
      assume "i < length evs" "evs ! i = Ev_sendMail m'"
      then have i: "i = Suc (length pre)" by (rule idx)
      have "evs ! (i - 1) = Ev_insert_email (length (emails s))"
        unfolding i by (simp add: split sent(1))
      then show "0 < i \<and> evs ! (i - 1) = Ev_insert_email (length (emails s))
            \<and> length (emails s) < length (emails s')
            \<and> email_id (emails s' ! length (emails s)) = length (emails s)
            \<and> email_enrollment_id (emails s' ! length (emails s)) = enrollment_id e"
        using i sent(3-5) by simp
    qed
    have 2: "\<forall>msg. Ev_insert_email_failed msg \<notin> set evs"
      using pre_no_fail by (simp add: split sent(1))
    have 3: "\<not> (\<forall>row. emailError E row \<noteq> None)"
      using sent(2) by blast
    show ?thesis
      using 1 2 3 by blast
  qed
  with evs show ?thesis by blast
qed

theorem C5_log_row_before_send_witness:
  "events (snd (processEnrollment ex_env ex_user (ex_enrollment ''e1'' 0) (ex_state [ex_row ''e1'' 0])))
     ! 3 = Ev_sendMail \<lparr>mail_from = sender ex_account, mail_to = ''a@x.io'', mail_subject = ''Hello'',
                mail_html = ''Hi Ann''\<rparr>
   \<and> events (snd (processEnrollment ex_env ex_user (ex_enrollment ''e1'' 0) (ex_state [ex_row ''e1'' 0])))
     ! 2 = Ev_insert_email 0
   \<and> Ev_insert_email_failed ''full''
       \<in> set (events (snd (processEnrollment (ex_env\<lparr>emailError := \<lambda>row. Some ''full''\<rparr>) ex_user
             (ex_enrollment ''e1'' 0) (ex_state [ex_row ''e1'' 0]))))
   \<and> filter is_sendMail
        (events (snd (processEnrollment (ex_env\<lparr>emailError := \<lambda>row. Some ''full''\<rparr>) ex_user
             (ex_enrollment ''e1'' 0) (ex_state [ex_row ''e1'' 0])))) = []
   \<and> status (fst (processEnrollment (ex_env\<lparr>emailError := \<lambda>row. Some ''full''\<rparr>) ex_user
             (ex_enrollment ''e1'' 0) (ex_state [ex_row ''e1'' 0]))) = St_error"
proof -
  let ?s = "ex_state [ex_row ''e1'' 0]"
  let ?p = "processEnrollment ex_env ex_user (ex_enrollment ''e1'' 0) ?s"
  let ?E = "ex_env\<lparr>emailError := \<lambda>row. Some ''full''\<rparr>"
  let ?q = "processEnrollment ?E ex_user (ex_enrollment ''e1'' 0) ?s"
  let ?m = "\<lparr>mail_from = sender ex_account, mail_to = ''a@x.io'', mail_subject = ''Hello'',
             mail_html = ''Hi Ann''\<rparr>"
  have p: "?p = (fst ?p, snd ?p)" and q: "?q = (fst ?q, snd ?q)" by simp_all
  have s0: "events ?s = []" "emails ?s = []" by (simp_all add: ex_state_def)
  have len: "length (events (snd ?p)) = 4" and at3: "events (snd ?p) ! 3 = Ev_sendMail ?m"
    by (simp_all add: ex_defs run_defs js_index_def mail_of_def effective_subject_def
        effective_body_def js_or_def replace_global_def createTransport_def)
  have failed: "Ev_insert_email_failed ''full'' \<in> set (events (snd ?q))"
    by (simp add: ex_defs run_defs js_index_def)
  from C5_log_row_before_send[OF p] s0 len at3
  have at2: "events (snd ?p) ! 2 = Ev_insert_email 0"
    by (auto dest!: spec[of _ 3])
  from C5_log_row_before_send[OF q] s0 failed
  have "status (fst ?q) = St_error \<and> (\<forall>m. Ev_sendMail m \<notin> set (events (snd ?q)))"
    by auto
  then have "status (fst ?q) = St_error \<and> filter is_sendMail (events (snd ?q)) = []"
    by (auto simp: filter_empty_conv elim: is_sendMail.elims)
  with at3 at2 failed show ?thesis by blast
qed

subsection \<open>One step of a task\<close>













subsection \<open>A task run to its result\<close>










subsection \<open>A batch under any schedule\<close>














subsection \<open>All batches of a run\<close>


subsection \<open>Isolation of a failing enrollment\<close>







end
